theory Spec2Isabelle
  imports Main
begin

section \<open>The tool-call dispatch loop of the S3 functions notebook\<close>

text \<open>
  The notebook defines \<^verbatim>\<open>chat_completion_request\<close> and \<^verbatim>\<open>run_conversation\<close>.
  Both talk to collaborators that are not code of the notebook: the completion client
  (\<^verbatim>\<open>client.chat.completions.create\<close>), the JSON decoder (\<^verbatim>\<open>json.loads\<close>) and the
  handlers stored in \<^verbatim>\<open>available_functions\<close>. They are parameters of the model,
  collected in an environment. A Python exception is a value of type \<open>exn\<close>;
  every call that may raise returns \<open>exn + 'a\<close>, \<open>Inl\<close> being the raise.
\<close>

subsection \<open>Data\<close>

text \<open>
  \<open>ExternalError\<close> stands for whatever a collaborator raises (the completion client,
  the object store behind a handler); the other constructors are the exceptions the
  notebook's own statements raise.
\<close>

datatype exn =
    IndexError
  | KeyError string
  | TypeError
  | JSONDecodeError
  | ExternalError string

text \<open>
  What \<^verbatim>\<open>json.loads\<close> returns. The loop asks one thing of the value, whether it is
  an object: only a mapping can be unpacked by \<^verbatim>\<open>**\<close>. It never looks inside, so
  numbers are kept as integers.
\<close>

datatype json =
    JNull
  | JBool bool
  | JNum int
  | JStr string
  | JArr "json list"
  | JObj "(string \<times> json) list"

type_synonym kwargs = "(string \<times> json) list"

text \<open>The completion client's response objects, with the attributes the notebook reads.\<close>

record function_call =
  fn_name :: string
  fn_arguments :: string

record tool_call =
  tc_id :: string
  tc_function :: function_call

record chat_message =
  content :: "string option"
  tool_calls :: "tool_call list option"

record choice =
  message :: chat_message

record response =
  choices :: "choice list"

text \<open>
  An element of \<^verbatim>\<open>messages\<close> is either a dict literal with string keys and string
  values, in the order the literal lists them, or the response's message object, which
  \<^verbatim>\<open>run_conversation\<close> appends as it is.
\<close>

datatype msg =
    Dict "(string \<times> string) list"
  | Message chat_message

text \<open>One entry of the global list \<^verbatim>\<open>functions\<close>.\<close>

record tool_spec =
  ts_name :: string
  ts_description :: string
  ts_properties :: "(string \<times> string \<times> string) list"
  ts_required :: "string list"

text \<open>The keyword arguments of \<^verbatim>\<open>client.chat.completions.create\<close>.\<close>

record request =
  model :: string
  messages :: "msg list"
  tools :: "tool_spec list option"
  tool_choice :: "string option"

text \<open>
  What the loop does to the outside, in order: a call of the completion client with its
  request, or a call of a handler of \<^verbatim>\<open>available_functions\<close> with its keyword
  arguments.
\<close>

datatype event =
    CompletionCall request
  | ToolCall string kwargs

text \<open>
  The state threaded through the loop: the external world (whatever the completion service
  and the handlers read and change), the calls issued so far, and what
  \<^verbatim>\<open>print(response.choices)\<close> wrote.
\<close>

record 'w state =
  world :: 'w
  trace :: "event list"
  stdout :: "choice list list"

type_synonym 'w handler = "kwargs \<Rightarrow> 'w \<Rightarrow> (exn + string) \<times> 'w"

text \<open>The globals of the notebook and the library functions it calls.\<close>

record 'w env =
  client_create :: "request \<Rightarrow> 'w \<Rightarrow> (exn + response) \<times> 'w"
  json_loads :: "string \<Rightarrow> json option"
  functions' :: "tool_spec list"
  available_functions :: "string \<rightharpoonup> 'w handler"

subsection \<open>The notebook's functions\<close>

definition GPT_MODEL :: string where
  "GPT_MODEL = ''gpt-3.5-turbo''"

text \<open>
  \<^verbatim>\<open>chat_completion_request(messages, functions=None, function_call='auto', model_name=GPT_MODEL)\<close>:
  with a tool list the request carries \<^verbatim>\<open>tools\<close> and \<^verbatim>\<open>tool_choice\<close>, without one
  it carries neither.
\<close>

definition chat_completion_request ::
  "'w env \<Rightarrow> msg list \<Rightarrow> tool_spec list option \<Rightarrow> string \<Rightarrow> string \<Rightarrow> 'w state
    \<Rightarrow> (exn + response) \<times> 'w state" where
  "chat_completion_request e msgs fns function_call_arg model_name s =
     (let req = (case fns of
                   Some fs \<Rightarrow> \<lparr>model = model_name, messages = msgs,
                                tools = Some fs, tool_choice = Some function_call_arg\<rparr>
                 | None \<Rightarrow> \<lparr>model = model_name, messages = msgs,
                             tools = None, tool_choice = None\<rparr>);
          r = client_create e req (world s)
      in (fst r, s\<lparr>world := snd r, trace := trace s @ [CompletionCall req]\<rparr>))"

definition system_message :: "string \<Rightarrow> string" where
  "system_message topic =
     ''Don't make assumptions about what values to plug into functions. '' @
     ''Ask for clarification if a user request is ambiguous. '' @
     ''If the user ask question not related to '' @ topic @
     '' response your scope is '' @ topic @ '' only.''"

definition initial_messages :: "string \<Rightarrow> string \<Rightarrow> msg list" where
  "initial_messages user_input topic =
     [Dict [(''role'', ''system''), (''content'', system_message topic)],
      Dict [(''role'', ''user''), (''content'', user_input)]]"

text \<open>The tool-role turn appended after the handler has returned.\<close>

definition tool_message :: "string \<Rightarrow> string \<Rightarrow> msg" where
  "tool_message function_response call_id =
     Dict [(''role'', ''tool''), (''content'', function_response), (''tool_call_id'', call_id)]"

text \<open>
  \<^verbatim>\<open>run_conversation(user_input, topic="S3 bucket functions.", is_log=False)\<close>.
  Every place where the Python can raise is a branch returning \<open>Inl\<close>:
  \<^verbatim>\<open>response.choices[0]\<close> on an empty list, \<^verbatim>\<open>json.loads\<close> on a string that is not
  JSON, \<^verbatim>\<open>available_functions[function_name]\<close> on a missing key, \<^verbatim>\<open>**function_args\<close>
  on a value that is not a mapping, the handler, and both completion calls.
  \<^verbatim>\<open>if response_message.tool_calls\<close> is false for \<^verbatim>\<open>None\<close> and for the empty list.
\<close>

definition run_conversation ::
  "'w env \<Rightarrow> string \<Rightarrow> string \<Rightarrow> bool \<Rightarrow> 'w state \<Rightarrow> (exn + string option) \<times> 'w state" where
  "run_conversation e user_input topic is_log s =
     (let msgs = initial_messages user_input topic in
      case chat_completion_request e msgs (Some (functions' e)) ''auto'' GPT_MODEL s of
        (Inl err, s1) \<Rightarrow> (Inl err, s1)
      | (Inr resp, s1) \<Rightarrow>
          (case choices resp of
             [] \<Rightarrow> (Inl IndexError, s1)
           | c # _ \<Rightarrow>
               (let response_message = message c;
                    s2 = (if is_log then s1\<lparr>stdout := stdout s1 @ [choices resp]\<rparr> else s1)
                in case tool_calls response_message of
                     Some (tc # _) \<Rightarrow>
                       (let function_name = fn_name (tc_function tc) in
                        case json_loads e (fn_arguments (tc_function tc)) of
                          None \<Rightarrow> (Inl JSONDecodeError, s2)
                        | Some function_args \<Rightarrow>
                            (case available_functions e function_name of
                               None \<Rightarrow> (Inl (KeyError function_name), s2)
                             | Some h \<Rightarrow>
                                 (case function_args of
                                    JObj kw \<Rightarrow>
                                      (let r = h kw (world s2);
                                           s3 = s2\<lparr>world := snd r,
                                                   trace := trace s2 @ [ToolCall function_name kw]\<rparr>
                                       in case fst r of
                                            Inl err \<Rightarrow> (Inl err, s3)
                                          | Inr function_response \<Rightarrow>
                                              (let msgs2 = msgs @ [Message response_message,
                                                         tool_message function_response (tc_id tc)]
                                               in case chat_completion_request e msgs2 None
                                                         ''auto'' GPT_MODEL s3 of
                                                    (Inl err, s4) \<Rightarrow> (Inl err, s4)
                                                  | (Inr second_response, s4) \<Rightarrow>
                                                      (case choices second_response of
                                                         [] \<Rightarrow> (Inl IndexError, s4)
                                                       | c2 # _ \<Rightarrow>
                                                           (Inr (content (message c2)), s4))))
                                  | _ \<Rightarrow> (Inl TypeError, s2))))
                   | _ \<Rightarrow> (Inr (content response_message), s2))))"

subsection \<open>Observations on a run\<close>

text \<open>
  The request of the first completion call, as \<^verbatim>\<open>run_conversation\<close> passes it through
  \<^verbatim>\<open>chat_completion_request(messages, functions=functions)\<close>, and the request of the
  second one, \<^verbatim>\<open>chat_completion_request(messages)\<close> after the two appends.
\<close>

definition first_request :: "'w env \<Rightarrow> string \<Rightarrow> string \<Rightarrow> request" where
  "first_request e user_input topic =
     \<lparr>model = GPT_MODEL, messages = initial_messages user_input topic,
      tools = Some (functions' e), tool_choice = Some ''auto''\<rparr>"

definition second_request ::
  "string \<Rightarrow> string \<Rightarrow> chat_message \<Rightarrow> string \<Rightarrow> string \<Rightarrow> request" where
  "second_request user_input topic response_message function_response call_id =
     \<lparr>model = GPT_MODEL,
      messages = initial_messages user_input topic @
                 [Message response_message, tool_message function_response call_id],
      tools = None, tool_choice = None\<rparr>"

text \<open>The calls one run adds to the trace.\<close>

definition issued :: "'w env \<Rightarrow> string \<Rightarrow> string \<Rightarrow> bool \<Rightarrow> 'w state \<Rightarrow> event list" where
  "issued e u t l s = drop (length (trace s)) (trace (snd (run_conversation e u t l s)))"

fun is_completion :: "event \<Rightarrow> bool" where
  "is_completion (CompletionCall _) = True"
| "is_completion (ToolCall _ _) = False"

fun is_tool :: "event \<Rightarrow> bool" where
  "is_tool (CompletionCall _) = False"
| "is_tool (ToolCall _ _) = True"

subsection \<open>Test doubles\<close>

text \<open>
  A stubbed completion service, decoder and registry over a world that is one counter.
  The service answers a request that carries a tool list with \<open>first\<close> and one that
  carries none with \<open>second\<close>, and leaves the counter alone. The decoder knows the
  empty object and the empty array. The handler \<open>bump\<close> increments the counter;
  \<open>failing\<close> raises.
\<close>

definition call :: "string \<Rightarrow> string \<Rightarrow> string \<Rightarrow> tool_call" where
  "call i n a = \<lparr>tc_id = i, tc_function = \<lparr>fn_name = n, fn_arguments = a\<rparr>\<rparr>"

definition selection :: "tool_call list \<Rightarrow> chat_message" where
  "selection tcs = \<lparr>content = None, tool_calls = Some tcs\<rparr>"

definition answer :: "string \<Rightarrow> chat_message" where
  "answer txt = \<lparr>content = Some txt, tool_calls = None\<rparr>"

definition respond :: "chat_message \<Rightarrow> response" where
  "respond m = \<lparr>choices = [\<lparr>message = m\<rparr>]\<rparr>"

definition stub_create ::
  "exn + response \<Rightarrow> exn + response \<Rightarrow> request \<Rightarrow> nat \<Rightarrow> (exn + response) \<times> nat" where
  "stub_create first second req w = (case tools req of Some _ \<Rightarrow> first | None \<Rightarrow> second, w)"

definition stub_loads :: "string \<Rightarrow> json option" where
  "stub_loads a =
     (if a = ''{}'' then Some (JObj []) else if a = ''[]'' then Some (JArr []) else None)"

definition bump :: "nat handler" where
  "bump kw w = (Inr ''bumped'', Suc w)"

definition failing :: "nat handler" where
  "failing kw w = (Inl (ExternalError ''bucket unreachable''), w)"

definition stub_env :: "exn + response \<Rightarrow> exn + response \<Rightarrow> nat env" where
  "stub_env first second =
     \<lparr>client_create = stub_create first second,
      json_loads = stub_loads,
      functions' =
        [\<lparr>ts_name = ''bump'', ts_description = ''Increment the counter'',
          ts_properties = [], ts_required = []\<rparr>,
         \<lparr>ts_name = ''failing'', ts_description = ''Always raise'',
          ts_properties = [], ts_required = []\<rparr>],
      available_functions = [''bump'' \<mapsto> bump, ''failing'' \<mapsto> failing]\<rparr>"

definition start :: "nat state" where
  "start = \<lparr>world = 0, trace = [], stdout = []\<rparr>"

text \<open>
  The environments of the worked examples: the model selects \<open>bump\<close>; it answers in
  plain text; it names a tool the registry does not have; it sends arguments that are not
  JSON; it selects \<open>bump\<close> and then a second, unusable invocation; the service is
  down at the first call; the handler raises; the service is down at the second call.
\<close>

definition bump_call :: tool_call where
  "bump_call = call ''call_1'' ''bump'' ''{}''"

definition bump_env :: "nat env" where
  "bump_env = stub_env (Inr (respond (selection [bump_call]))) (Inr (respond (answer ''Done.'')))"

definition text_env :: "nat env" where
  "text_env = stub_env (Inr (respond (answer ''My scope is S3 only.'')))
                       (Inr (respond (answer ''unused'')))"

definition nope_call :: tool_call where
  "nope_call = call ''call_1'' ''nope'' ''{}''"

definition nope_env :: "nat env" where
  "nope_env = stub_env (Inr (respond (selection [nope_call]))) (Inr (respond (answer ''Done.'')))"

definition garbled_call :: tool_call where
  "garbled_call = call ''call_1'' ''bump'' ''{oops''"

definition garbled_env :: "nat env" where
  "garbled_env =
     stub_env (Inr (respond (selection [garbled_call]))) (Inr (respond (answer ''Done.'')))"

definition stray_call :: tool_call where
  "stray_call = call ''call_2'' ''nope'' ''{oops''"

definition two_calls_env :: "nat env" where
  "two_calls_env =
     stub_env (Inr (respond (selection [bump_call, stray_call])))
              (Inr (respond (answer ''Done.'')))"

definition down_env :: "nat env" where
  "down_env = stub_env (Inl (ExternalError ''rate limit'')) (Inr (respond (answer ''Done.'')))"

definition failing_call :: tool_call where
  "failing_call = call ''call_1'' ''failing'' ''{}''"

definition failing_env :: "nat env" where
  "failing_env =
     stub_env (Inr (respond (selection [failing_call]))) (Inr (respond (answer ''Done.'')))"

definition down_later_env :: "nat env" where
  "down_later_env =
     stub_env (Inr (respond (selection [bump_call]))) (Inl (ExternalError ''rate limit''))"

text \<open>
  A completion service that, like the stub, answers a request with a tool list by the
  tool selection, but refuses a conversation in which an assistant message carries a tool
  invocation that no tool-role turn answers.
\<close>

fun requested_ids :: "msg list \<Rightarrow> string list" where
  "requested_ids [] = []"
| "requested_ids (Dict kvs # ms) = requested_ids ms"
| "requested_ids (Message m # ms) =
     (case tool_calls m of None \<Rightarrow> [] | Some tcs \<Rightarrow> map tc_id tcs) @ requested_ids ms"

fun answered_ids :: "msg list \<Rightarrow> string list" where
  "answered_ids [] = []"
| "answered_ids (Dict kvs # ms) =
     (case map_of kvs ''tool_call_id'' of None \<Rightarrow> [] | Some i \<Rightarrow> [i]) @ answered_ids ms"
| "answered_ids (Message m # ms) = answered_ids ms"

definition strict_create ::
  "exn + response \<Rightarrow> exn + response \<Rightarrow> request \<Rightarrow> nat \<Rightarrow> (exn + response) \<times> nat" where
  "strict_create first second req w =
     (case tools req of
        Some _ \<Rightarrow> first
      | None \<Rightarrow>
          if list_all (\<lambda>i. i \<in> set (answered_ids (messages req)))
               (requested_ids (messages req))
          then second
          else Inl (ExternalError ''tool call without a response''), w)"

definition strict_env :: "nat env" where
  "strict_env =
     two_calls_env
       \<lparr>client_create :=
          strict_create (Inr (respond (selection [bump_call, stray_call])))
                        (Inr (respond (answer ''Done.'')))\<rparr>"

section \<open>The paths through \<^verbatim>\<open>run_conversation\<close>\<close>

text \<open>
  One lemma for each way the function can end: what it returns, the world it leaves and
  the calls it has added to the trace.
\<close>

lemmas run_defs = run_conversation_def chat_completion_request_def first_request_def
  second_request_def Let_def

lemma issued_eq:
  "trace (snd (run_conversation e u t l s)) = trace s @ evs \<Longrightarrow> issued e u t l s = evs"
  by (simp add: issued_def)

lemma path_first_raises:
  assumes "client_create e (first_request e u t) (world s) = (Inl err, w1)"
  shows "fst (run_conversation e u t l s) = Inl err"
    and "world (snd (run_conversation e u t l s)) = w1"
    and "trace (snd (run_conversation e u t l s)) =
           trace s @ [CompletionCall (first_request e u t)]"
  using assms by (simp_all add: run_defs)

lemma path_no_choice:
  assumes "client_create e (first_request e u t) (world s) = (Inr resp, w1)"
    and "choices resp = []"
  shows "fst (run_conversation e u t l s) = Inl IndexError"
    and "world (snd (run_conversation e u t l s)) = w1"
    and "trace (snd (run_conversation e u t l s)) =
           trace s @ [CompletionCall (first_request e u t)]"
  using assms by (simp_all add: run_defs)

lemma path_no_tool:
  assumes "client_create e (first_request e u t) (world s) = (Inr resp, w1)"
    and "choices resp = c # cs"
    and "tool_calls (message c) = None \<or> tool_calls (message c) = Some []"
  shows "fst (run_conversation e u t l s) = Inr (content (message c))"
    and "world (snd (run_conversation e u t l s)) = w1"
    and "trace (snd (run_conversation e u t l s)) =
           trace s @ [CompletionCall (first_request e u t)]"
  using assms by (auto simp add: run_defs)

lemma path_bad_json:
  assumes "client_create e (first_request e u t) (world s) = (Inr resp, w1)"
    and "choices resp = c # cs"
    and "tool_calls (message c) = Some (tc # rest)"
    and "json_loads e (fn_arguments (tc_function tc)) = None"
  shows "fst (run_conversation e u t l s) = Inl JSONDecodeError"
    and "world (snd (run_conversation e u t l s)) = w1"
    and "trace (snd (run_conversation e u t l s)) =
           trace s @ [CompletionCall (first_request e u t)]"
  using assms by (simp_all add: run_defs)

lemma path_unknown_tool:
  assumes "client_create e (first_request e u t) (world s) = (Inr resp, w1)"
    and "choices resp = c # cs"
    and "tool_calls (message c) = Some (tc # rest)"
    and "json_loads e (fn_arguments (tc_function tc)) = Some fa"
    and "available_functions e (fn_name (tc_function tc)) = None"
  shows "fst (run_conversation e u t l s) = Inl (KeyError (fn_name (tc_function tc)))"
    and "world (snd (run_conversation e u t l s)) = w1"
    and "trace (snd (run_conversation e u t l s)) =
           trace s @ [CompletionCall (first_request e u t)]"
  using assms by (simp_all add: run_defs)

lemma path_not_mapping:
  assumes "client_create e (first_request e u t) (world s) = (Inr resp, w1)"
    and "choices resp = c # cs"
    and "tool_calls (message c) = Some (tc # rest)"
    and "json_loads e (fn_arguments (tc_function tc)) = Some fa"
    and "available_functions e (fn_name (tc_function tc)) = Some h"
    and "\<nexists>kw. fa = JObj kw"
  shows "fst (run_conversation e u t l s) = Inl TypeError"
    and "world (snd (run_conversation e u t l s)) = w1"
    and "trace (snd (run_conversation e u t l s)) =
           trace s @ [CompletionCall (first_request e u t)]"
  using assms by (cases fa; simp add: run_defs)+

lemma path_handler_raises:
  assumes "client_create e (first_request e u t) (world s) = (Inr resp, w1)"
    and "choices resp = c # cs"
    and "tool_calls (message c) = Some (tc # rest)"
    and "json_loads e (fn_arguments (tc_function tc)) = Some (JObj kw)"
    and "available_functions e (fn_name (tc_function tc)) = Some h"
    and "h kw w1 = (Inl err, w2)"
  shows "fst (run_conversation e u t l s) = Inl err"
    and "world (snd (run_conversation e u t l s)) = w2"
    and "trace (snd (run_conversation e u t l s)) =
           trace s @ [CompletionCall (first_request e u t),
                      ToolCall (fn_name (tc_function tc)) kw]"
  using assms by (simp_all add: run_defs)

lemma path_tool:
  assumes "client_create e (first_request e u t) (world s) = (Inr resp, w1)"
    and "choices resp = c # cs"
    and "tool_calls (message c) = Some (tc # rest)"
    and "json_loads e (fn_arguments (tc_function tc)) = Some (JObj kw)"
    and "available_functions e (fn_name (tc_function tc)) = Some h"
    and "h kw w1 = (Inr out, w2)"
    and "client_create e (second_request u t (message c) out (tc_id tc)) w2 = (r2, w3)"
  shows "fst (run_conversation e u t l s) =
           (case r2 of Inl err \<Rightarrow> Inl err
            | Inr resp2 \<Rightarrow> (case choices resp2 of [] \<Rightarrow> Inl IndexError
                            | c2 # _ \<Rightarrow> Inr (content (message c2))))"
    and "world (snd (run_conversation e u t l s)) = w3"
    and "trace (snd (run_conversation e u t l s)) =
           trace s @ [CompletionCall (first_request e u t),
                      ToolCall (fn_name (tc_function tc)) kw,
                      CompletionCall (second_request u t (message c) out (tc_id tc))]"
  using assms by (auto simp: run_defs split: sum.splits list.splits)

text \<open>The test doubles answer the two requests of a run as they were set up to.\<close>

lemma stub_first [simp]:
  "client_create (stub_env f g) (first_request (stub_env f g) u t) w = (f, w)"
  by (simp add: stub_env_def stub_create_def first_request_def)

lemma stub_second [simp]:
  "client_create (stub_env f g) (second_request u t m out i) w = (g, w)"
  by (simp add: stub_env_def stub_create_def second_request_def)

lemma stub_env_sel [simp]:
  "json_loads (stub_env f g) = stub_loads"
  "available_functions (stub_env f g) = [''bump'' \<mapsto> bump, ''failing'' \<mapsto> failing]"
  by (simp_all add: stub_env_def)

lemma respond_sel [simp]:
  "choices (respond m) = [\<lparr>message = m\<rparr>]"
  "tool_calls (selection tcs) = Some tcs"
  "content (selection tcs) = None"
  "tool_calls (answer txt) = None"
  "content (answer txt) = Some txt"
  by (simp_all add: respond_def selection_def answer_def)

lemma call_sel [simp]:
  "tc_id (call i n a) = i"
  "fn_name (tc_function (call i n a)) = n"
  "fn_arguments (tc_function (call i n a)) = a"
  by (simp_all add: call_def)

lemma start_sel [simp]:
  "world start = 0"
  "trace start = []"
  "stdout start = []"
  by (simp_all add: start_def)

lemmas stub_defs = bump_env_def text_env_def nope_env_def garbled_env_def two_calls_env_def
  down_env_def failing_env_def down_later_env_def bump_call_def nope_call_def
  garbled_call_def stray_call_def failing_call_def stub_loads_def bump_def failing_def

text \<open>The eight paths are all there are.\<close>

lemma run_cases:
  obtains
    (first_raises) err w1 where
      "client_create e (first_request e u t) (world s) = (Inl err, w1)"
  | (no_choice) resp w1 where
      "client_create e (first_request e u t) (world s) = (Inr resp, w1)" "choices resp = []"
  | (no_tool) resp w1 c cs where
      "client_create e (first_request e u t) (world s) = (Inr resp, w1)" "choices resp = c # cs"
      "tool_calls (message c) = None \<or> tool_calls (message c) = Some []"
  | (bad_json) resp w1 c cs tc rest where
      "client_create e (first_request e u t) (world s) = (Inr resp, w1)" "choices resp = c # cs"
      "tool_calls (message c) = Some (tc # rest)"
      "json_loads e (fn_arguments (tc_function tc)) = None"
  | (unknown_tool) resp w1 c cs tc rest fa where
      "client_create e (first_request e u t) (world s) = (Inr resp, w1)" "choices resp = c # cs"
      "tool_calls (message c) = Some (tc # rest)"
      "json_loads e (fn_arguments (tc_function tc)) = Some fa"
      "available_functions e (fn_name (tc_function tc)) = None"
  | (not_mapping) resp w1 c cs tc rest fa h where
      "client_create e (first_request e u t) (world s) = (Inr resp, w1)" "choices resp = c # cs"
      "tool_calls (message c) = Some (tc # rest)"
      "json_loads e (fn_arguments (tc_function tc)) = Some fa"
      "available_functions e (fn_name (tc_function tc)) = Some h"
      "\<nexists>kw. fa = JObj kw"
  | (handler_raises) resp w1 c cs tc rest kw h err w2 where
      "client_create e (first_request e u t) (world s) = (Inr resp, w1)" "choices resp = c # cs"
      "tool_calls (message c) = Some (tc # rest)"
      "json_loads e (fn_arguments (tc_function tc)) = Some (JObj kw)"
      "available_functions e (fn_name (tc_function tc)) = Some h"
      "h kw w1 = (Inl err, w2)"
  | (tool) resp w1 c cs tc rest kw h out w2 r2 w3 where
      "client_create e (first_request e u t) (world s) = (Inr resp, w1)" "choices resp = c # cs"
      "tool_calls (message c) = Some (tc # rest)"
      "json_loads e (fn_arguments (tc_function tc)) = Some (JObj kw)"
      "available_functions e (fn_name (tc_function tc)) = Some h"
      "h kw w1 = (Inr out, w2)"
      "client_create e (second_request u t (message c) out (tc_id tc)) w2 = (r2, w3)"
proof -
  obtain r1 w1 where a: "client_create e (first_request e u t) (world s) = (r1, w1)"
    by (cases "client_create e (first_request e u t) (world s)")
  show thesis
  proof (cases r1)
    case (Inl err)
    with a first_raises show thesis by simp
  next
    case (Inr resp)
    note r = a[unfolded Inr]
    show thesis
    proof (cases "choices resp")
      case Nil
      with r no_choice show thesis by simp
    next
      case (Cons c cs)
      note ch = Cons
      show thesis
      proof (cases "tool_calls (message c)")
        case None
        with r ch no_tool show thesis by simp
      next
        case (Some tcs)
        show thesis
        proof (cases tcs)
          case Nil
          with Some r ch no_tool show thesis by simp
        next
          case (Cons tc rest)
          with Some have tcs: "tool_calls (message c) = Some (tc # rest)" by simp
          show thesis
          proof (cases "json_loads e (fn_arguments (tc_function tc))")
            case None
            with r ch tcs bad_json show thesis by simp
          next
            case (Some fa)
            note js = Some
            show thesis
            proof (cases "available_functions e (fn_name (tc_function tc))")
              case None
              with r ch tcs js unknown_tool show thesis by simp
            next
              case (Some h)
              note hd = Some
              show thesis
              proof (cases "\<exists>kw. fa = JObj kw")
                case False
                with r ch tcs js hd not_mapping show thesis by simp
              next
                case True
                then obtain kw where fa: "fa = JObj kw" by blast
                obtain rh w2 where hr: "h kw w1 = (rh, w2)" by (cases "h kw w1")
                show thesis
                proof (cases rh)
                  case (Inl err)
                  with r ch tcs js hd fa hr handler_raises show thesis by simp
                next
                  case (Inr out)
                  obtain r2 w3 where
                    "client_create e (second_request u t (message c) out (tc_id tc)) w2 = (r2, w3)"
                    by (cases "client_create e (second_request u t (message c) out (tc_id tc)) w2")
                  with r ch tcs js hd fa hr Inr tool show thesis by simp
                qed
              qed
            qed
          qed
        qed
      qed
    qed
  qed
qed

text \<open>A run only appends to the trace; \<open>issued\<close> is what it appends.\<close>

lemma trace_extends: "trace (snd (run_conversation e u t l s)) = trace s @ issued e u t l s"
proof (cases rule: run_cases[of e u t s])
  case first_raises
  from path_first_raises(3)[OF first_raises] show ?thesis by (simp add: issued_def)
next
  case no_choice
  from path_no_choice(3)[OF no_choice] show ?thesis by (simp add: issued_def)
next
  case no_tool
  from path_no_tool(3)[OF no_tool] show ?thesis by (simp add: issued_def)
next
  case bad_json
  from path_bad_json(3)[OF bad_json] show ?thesis by (simp add: issued_def)
next
  case unknown_tool
  from path_unknown_tool(3)[OF unknown_tool] show ?thesis by (simp add: issued_def)
next
  case not_mapping
  from path_not_mapping(3)[OF not_mapping] show ?thesis by (simp add: issued_def)
next
  case handler_raises
  from path_handler_raises(3)[OF handler_raises] show ?thesis by (simp add: issued_def)
next
  case tool
  from path_tool(3)[OF tool] show ?thesis by (simp add: issued_def)
qed

text \<open>Every run starts with the first completion call.\<close>

lemma first_issued:
  "\<exists>evs. issued e u t l s = CompletionCall (first_request e u t) # evs"
proof (cases rule: run_cases[of e u t s])
  case first_raises
  from issued_eq[OF path_first_raises(3)[OF first_raises]] show ?thesis by simp
next
  case no_choice
  from issued_eq[OF path_no_choice(3)[OF no_choice]] show ?thesis by simp
next
  case no_tool
  from issued_eq[OF path_no_tool(3)[OF no_tool]] show ?thesis by simp
next
  case bad_json
  from issued_eq[OF path_bad_json(3)[OF bad_json]] show ?thesis by simp
next
  case unknown_tool
  from issued_eq[OF path_unknown_tool(3)[OF unknown_tool]] show ?thesis by simp
next
  case not_mapping
  from issued_eq[OF path_not_mapping(3)[OF not_mapping]] show ?thesis by simp
next
  case handler_raises
  from issued_eq[OF path_handler_raises(3)[OF handler_raises]] show ?thesis by simp
next
  case tool
  from issued_eq[OF path_tool(3)[OF tool]] show ?thesis by simp
qed

text \<open>
  A run reads the state only through the world: the trace and the printed output of
  earlier runs change neither its result, nor the world it leaves, nor the calls it issues.
\<close>

lemma run_world_only:
  assumes "world s' = world s"
  shows "fst (run_conversation e u t l s') = fst (run_conversation e u t l s)"
    and "world (snd (run_conversation e u t l s')) = world (snd (run_conversation e u t l s))"
    and "issued e u t l s' = issued e u t l s"
proof (atomize (full), cases rule: run_cases[of e u t s])
  case first_raises
  note p = first_raises
  note p' = p[folded assms]
  from path_first_raises(1,2)[OF p, of l] path_first_raises(1,2)[OF p', of l]
    issued_eq[OF path_first_raises(3)[OF p, of l]] issued_eq[OF path_first_raises(3)[OF p', of l]]
  show "fst (run_conversation e u t l s') = fst (run_conversation e u t l s) \<and>
    world (snd (run_conversation e u t l s')) = world (snd (run_conversation e u t l s)) \<and>
    issued e u t l s' = issued e u t l s" by simp
next
  case no_choice
  note p = no_choice
  note p' = p(1)[folded assms] p(2-)
  from path_no_choice(1,2)[OF p, of l] path_no_choice(1,2)[OF p', of l]
    issued_eq[OF path_no_choice(3)[OF p, of l]] issued_eq[OF path_no_choice(3)[OF p', of l]]
  show "fst (run_conversation e u t l s') = fst (run_conversation e u t l s) \<and>
    world (snd (run_conversation e u t l s')) = world (snd (run_conversation e u t l s)) \<and>
    issued e u t l s' = issued e u t l s" by simp
next
  case no_tool
  note p = no_tool
  note p' = p(1)[folded assms] p(2-)
  from path_no_tool(1,2)[OF p, of l] path_no_tool(1,2)[OF p', of l]
    issued_eq[OF path_no_tool(3)[OF p, of l]] issued_eq[OF path_no_tool(3)[OF p', of l]]
  show "fst (run_conversation e u t l s') = fst (run_conversation e u t l s) \<and>
    world (snd (run_conversation e u t l s')) = world (snd (run_conversation e u t l s)) \<and>
    issued e u t l s' = issued e u t l s" by simp
next
  case bad_json
  note p = bad_json
  note p' = p(1)[folded assms] p(2-)
  from path_bad_json(1,2)[OF p, of l] path_bad_json(1,2)[OF p', of l]
    issued_eq[OF path_bad_json(3)[OF p, of l]] issued_eq[OF path_bad_json(3)[OF p', of l]]
  show "fst (run_conversation e u t l s') = fst (run_conversation e u t l s) \<and>
    world (snd (run_conversation e u t l s')) = world (snd (run_conversation e u t l s)) \<and>
    issued e u t l s' = issued e u t l s" by simp
next
  case unknown_tool
  note p = unknown_tool
  note p' = p(1)[folded assms] p(2-)
  from path_unknown_tool(1,2)[OF p, of l] path_unknown_tool(1,2)[OF p', of l]
    issued_eq[OF path_unknown_tool(3)[OF p, of l]] issued_eq[OF path_unknown_tool(3)[OF p', of l]]
  show "fst (run_conversation e u t l s') = fst (run_conversation e u t l s) \<and>
    world (snd (run_conversation e u t l s')) = world (snd (run_conversation e u t l s)) \<and>
    issued e u t l s' = issued e u t l s" by simp
next
  case not_mapping
  note p = not_mapping
  note p' = p(1)[folded assms] p(2-)
  from path_not_mapping(1,2)[OF p, of l] path_not_mapping(1,2)[OF p', of l]
    issued_eq[OF path_not_mapping(3)[OF p, of l]] issued_eq[OF path_not_mapping(3)[OF p', of l]]
  show "fst (run_conversation e u t l s') = fst (run_conversation e u t l s) \<and>
    world (snd (run_conversation e u t l s')) = world (snd (run_conversation e u t l s)) \<and>
    issued e u t l s' = issued e u t l s" by simp
next
  case handler_raises
  note p = handler_raises
  note p' = p(1)[folded assms] p(2-)
  from path_handler_raises(1,2)[OF p, of l] path_handler_raises(1,2)[OF p', of l]
    issued_eq[OF path_handler_raises(3)[OF p, of l]] issued_eq[OF path_handler_raises(3)[OF p', of l]]
  show "fst (run_conversation e u t l s') = fst (run_conversation e u t l s) \<and>
    world (snd (run_conversation e u t l s')) = world (snd (run_conversation e u t l s)) \<and>
    issued e u t l s' = issued e u t l s" by simp
next
  case tool
  note p = tool
  note p' = p(1)[folded assms] p(2-)
  from path_tool(1,2)[OF p, of l] path_tool(1,2)[OF p', of l]
    issued_eq[OF path_tool(3)[OF p, of l]] issued_eq[OF path_tool(3)[OF p', of l]]
  show "fst (run_conversation e u t l s') = fst (run_conversation e u t l s) \<and>
    world (snd (run_conversation e u t l s')) = world (snd (run_conversation e u t l s)) \<and>
    issued e u t l s' = issued e u t l s" by simp
qed

text \<open>
  One run against a completion service that leaves the world alone and always selects the
  same registered handler: the world afterwards is the one the handler left, whether the
  handler returned or raised, and the handler was called once.
\<close>

lemma run_selected:
  assumes "\<forall>req w. snd (client_create e req w) = w"
    and "\<forall>w. fst (client_create e (first_request e u t) w) = Inr resp"
    and "choices resp = c # cs"
    and "tool_calls (message c) = Some (tc # rest)"
    and "json_loads e (fn_arguments (tc_function tc)) = Some (JObj kw)"
    and "available_functions e (fn_name (tc_function tc)) = Some h"
  shows "world (snd (run_conversation e u t l s)) = snd (h kw (world s))"
    and "filter is_tool (issued e u t l s) = [ToolCall (fn_name (tc_function tc)) kw]"
proof -
  have p1: "client_create e (first_request e u t) (world s) = (Inr resp, world s)"
    using assms(1,2) by (simp add: prod_eq_iff)
  obtain rh w2 where hr: "h kw (world s) = (rh, w2)"
    by (cases "h kw (world s)")
  have "world (snd (run_conversation e u t l s)) = snd (h kw (world s)) \<and>
        filter is_tool (issued e u t l s) = [ToolCall (fn_name (tc_function tc)) kw]"
  proof (cases rh)
    case (Inl err)
    with hr have hr': "h kw (world s) = (Inl err, w2)" by simp
    from path_handler_raises(2)[OF p1 assms(3-6) hr']
      issued_eq[OF path_handler_raises(3)[OF p1 assms(3-6) hr']] hr
    show ?thesis by simp
  next
    case (Inr out)
    with hr have hr': "h kw (world s) = (Inr out, w2)" by simp
    obtain r2 where p2:
      "client_create e (second_request u t (message c) out (tc_id tc)) w2 = (r2, w2)"
      using assms(1) by (cases "client_create e (second_request u t (message c) out (tc_id tc)) w2")
        (metis snd_conv)
    from path_tool(2)[OF p1 assms(3-6) hr' p2]
      issued_eq[OF path_tool(3)[OF p1 assms(3-6) hr' p2]] hr
    show ?thesis by simp
  qed
  then show "world (snd (run_conversation e u t l s)) = snd (h kw (world s))"
    and "filter is_tool (issued e u t l s) = [ToolCall (fn_name (tc_function tc)) kw]"
    by simp_all
qed

section \<open>The claims\<close>

text \<open>
  C1, as amended. When the first response carries a tool invocation whose argument string
  decodes to a JSON object, whose name is a key of \<^verbatim>\<open>available_functions\<close> and whose
  handler returns, the run issues exactly two completion calls and one handler call, in
  the order completion call, handler call, completion call.
\<close>

theorem tool_path_calls:
  assumes "client_create e (first_request e u t) (world s) = (Inr resp, w1)"
    and "choices resp = c # cs"
    and "tool_calls (message c) = Some (tc # rest)"
    and "json_loads e (fn_arguments (tc_function tc)) = Some (JObj kw)"
    and "available_functions e (fn_name (tc_function tc)) = Some h"
    and "h kw w1 = (Inr out, w2)"
  shows "issued e u t l s =
           [CompletionCall (first_request e u t),
            ToolCall (fn_name (tc_function tc)) kw,
            CompletionCall (second_request u t (message c) out (tc_id tc))]"
proof -
  obtain r2 w3 where
    "client_create e (second_request u t (message c) out (tc_id tc)) w2 = (r2, w3)"
    by (cases "client_create e (second_request u t (message c) out (tc_id tc)) w2")
  from issued_eq[OF path_tool(3)[OF assms this]] show ?thesis .
qed

text \<open>The amended C1 on the stub that selects \<open>bump\<close>.\<close>

theorem tool_path_calls_witness:
  "client_create bump_env (first_request bump_env ''bump it'' ''counters'') (world start) =
     (Inr (respond (selection [bump_call])), 0) \<and>
   choices (respond (selection [bump_call])) = [\<lparr>message = selection [bump_call]\<rparr>] \<and>
   tool_calls (message \<lparr>message = selection [bump_call]\<rparr>) = Some [bump_call] \<and>
   json_loads bump_env (fn_arguments (tc_function bump_call)) = Some (JObj []) \<and>
   available_functions bump_env (fn_name (tc_function bump_call)) = Some bump \<and>
   bump [] 0 = (Inr ''bumped'', 1) \<and>
   issued bump_env ''bump it'' ''counters'' False start =
     [CompletionCall (first_request bump_env ''bump it'' ''counters''),
      ToolCall ''bump'' [],
      CompletionCall (second_request ''bump it'' ''counters'' (selection [bump_call])
                        ''bumped'' ''call_1'')]"
proof -
  have h1: "client_create bump_env (first_request bump_env ''bump it'' ''counters'') (world start) =
     (Inr (respond (selection [bump_call])), 0)"
    by (simp add: bump_env_def)
  have h2: "choices (respond (selection [bump_call])) = [\<lparr>message = selection [bump_call]\<rparr>]"
    by simp
  have h3: "tool_calls (message \<lparr>message = selection [bump_call]\<rparr>) = Some [bump_call]"
    by simp
  have h4: "json_loads bump_env (fn_arguments (tc_function bump_call)) = Some (JObj [])"
    by (simp add: stub_defs)
  have h5: "available_functions bump_env (fn_name (tc_function bump_call)) = Some bump"
    by (simp add: stub_defs)
  have h6: "bump [] 0 = (Inr ''bumped'', 1)"
    by (simp add: bump_def)
  from tool_path_calls[OF h1 h2 h3 h4 h5 h6, of False] h1 h2 h3 h4 h5 h6
  show ?thesis by (simp add: bump_call_def)
qed

text \<open>
  C1 as written asks for the three calls whenever the first response contains a tool
  invocation. Here the response contains one, for a name the registry lacks: the run
  issues the first completion call only, calls no handler and raises \<^verbatim>\<open>KeyError\<close>.
\<close>

theorem tool_path_calls_counterexample:
  "fst (client_create nope_env (first_request nope_env ''list my buckets'' ''S3'') (world start)) =
     Inr (respond (selection [nope_call])) \<and>
   tool_calls (message (hd (choices (respond (selection [nope_call]))))) = Some [nope_call] \<and>
   fst (run_conversation nope_env ''list my buckets'' ''S3'' False start) = Inl (KeyError ''nope'') \<and>
   issued nope_env ''list my buckets'' ''S3'' False start =
     [CompletionCall (first_request nope_env ''list my buckets'' ''S3'')]"
proof -
  have h1: "client_create nope_env (first_request nope_env ''list my buckets'' ''S3'') (world start) =
     (Inr (respond (selection [nope_call])), 0)"
    by (simp add: nope_env_def)
  have h2: "choices (respond (selection [nope_call])) = [\<lparr>message = selection [nope_call]\<rparr>]"
    by simp
  have h3: "tool_calls (message \<lparr>message = selection [nope_call]\<rparr>) = Some [nope_call]"
    by simp
  have h4: "json_loads nope_env (fn_arguments (tc_function nope_call)) = Some (JObj [])"
    by (simp add: stub_defs)
  have h5: "available_functions nope_env (fn_name (tc_function nope_call)) = None"
    by (simp add: stub_defs)
  from path_unknown_tool(1)[OF h1 h2 h3 h4 h5, of False]
    issued_eq[OF path_unknown_tool(3)[OF h1 h2 h3 h4 h5, of False]] h1
  show ?thesis by (simp add: nope_call_def)
qed

text \<open>
  C2. When the first response carries no tool invocation (\<^verbatim>\<open>tool_calls\<close> is
  \<^verbatim>\<open>None\<close> or empty), the run issues exactly one completion call and returns the
  content of that response as it is.
\<close>

theorem direct_answer:
  assumes "client_create e (first_request e u t) (world s) = (Inr resp, w1)"
    and "choices resp = c # cs"
    and "tool_calls (message c) = None \<or> tool_calls (message c) = Some []"
  shows "fst (run_conversation e u t l s) = Inr (content (message c)) \<and>
         issued e u t l s = [CompletionCall (first_request e u t)]"
  using path_no_tool(1)[OF assms] issued_eq[OF path_no_tool(3)[OF assms]] by simp

text \<open>C2 on the stub that answers in plain text.\<close>

theorem direct_answer_witness:
  "client_create text_env (first_request text_env ''what is the weather today'' ''S3'')
       (world start) = (Inr (respond (answer ''My scope is S3 only.'')), 0) \<and>
   choices (respond (answer ''My scope is S3 only.'')) =
     [\<lparr>message = answer ''My scope is S3 only.''\<rparr>] \<and>
   tool_calls (message \<lparr>message = answer ''My scope is S3 only.''\<rparr>) = None \<and>
   fst (run_conversation text_env ''what is the weather today'' ''S3'' False start) =
     Inr (Some ''My scope is S3 only.'') \<and>
   issued text_env ''what is the weather today'' ''S3'' False start =
     [CompletionCall (first_request text_env ''what is the weather today'' ''S3'')]"
proof -
  have h1: "client_create text_env (first_request text_env ''what is the weather today'' ''S3'')
       (world start) = (Inr (respond (answer ''My scope is S3 only.'')), 0)"
    by (simp add: text_env_def)
  have h2: "choices (respond (answer ''My scope is S3 only.'')) =
     [\<lparr>message = answer ''My scope is S3 only.''\<rparr>]"
    by simp
  have h3: "tool_calls (message \<lparr>message = answer ''My scope is S3 only.''\<rparr>) = None \<or>
            tool_calls (message \<lparr>message = answer ''My scope is S3 only.''\<rparr>) = Some []"
    by simp
  from direct_answer[OF h1 h2 h3, of False] h1 h2 show ?thesis by simp
qed

text \<open>
  C3. Whatever the completion service answers (also a response with several tool
  invocations) and whatever the decoder, the registry and the handlers do, one run calls
  at most one handler and calls the completion service once or twice, never more often.
  The calls counted are those the run adds to the trace.
\<close>

theorem call_bounds:
  "trace (snd (run_conversation e u t l s)) = trace s @ issued e u t l s \<and>
   length (filter is_completion (issued e u t l s)) \<in> {1, 2} \<and>
   length (filter is_tool (issued e u t l s)) \<le> 1"
proof (cases rule: run_cases[of e u t s])
  case first_raises
  from issued_eq[OF path_first_raises(3)[OF first_raises]] show ?thesis
    by (simp add: trace_extends)
next
  case no_choice
  from issued_eq[OF path_no_choice(3)[OF no_choice]] show ?thesis
    by (simp add: trace_extends)
next
  case no_tool
  from issued_eq[OF path_no_tool(3)[OF no_tool]] show ?thesis
    by (simp add: trace_extends)
next
  case bad_json
  from issued_eq[OF path_bad_json(3)[OF bad_json]] show ?thesis
    by (simp add: trace_extends)
next
  case unknown_tool
  from issued_eq[OF path_unknown_tool(3)[OF unknown_tool]] show ?thesis
    by (simp add: trace_extends)
next
  case not_mapping
  from issued_eq[OF path_not_mapping(3)[OF not_mapping]] show ?thesis
    by (simp add: trace_extends)
next
  case handler_raises
  from issued_eq[OF path_handler_raises(3)[OF handler_raises]] show ?thesis
    by (simp add: trace_extends)
next
  case tool
  from issued_eq[OF path_tool(3)[OF tool]] show ?thesis
    by (simp add: trace_extends)
qed

text \<open>
  C4. When the first response names a tool that is not a key of
  \<^verbatim>\<open>available_functions\<close>, the run raises: \<^verbatim>\<open>KeyError\<close> with the name, or
  \<^verbatim>\<open>JSONDecodeError\<close> when the argument string does not decode either, since the
  decoder runs first. No value is returned, the only call issued is the first completion
  call, and the world is as that call left it.
\<close>

theorem unknown_tool_raises:
  assumes "client_create e (first_request e u t) (world s) = (Inr resp, w1)"
    and "choices resp = c # cs"
    and "tool_calls (message c) = Some (tc # rest)"
    and "available_functions e (fn_name (tc_function tc)) = None"
  shows "fst (run_conversation e u t l s) =
           Inl (case json_loads e (fn_arguments (tc_function tc)) of
                  None \<Rightarrow> JSONDecodeError
                | Some _ \<Rightarrow> KeyError (fn_name (tc_function tc))) \<and>
         issued e u t l s = [CompletionCall (first_request e u t)] \<and>
         world (snd (run_conversation e u t l s)) = w1"
proof (cases "json_loads e (fn_arguments (tc_function tc))")
  case None
  from path_bad_json(1,2)[OF assms(1-3) None] issued_eq[OF path_bad_json(3)[OF assms(1-3) None]]
  show ?thesis using None by simp
next
  case (Some fa)
  from path_unknown_tool(1,2)[OF assms(1-3) Some assms(4)]
    issued_eq[OF path_unknown_tool(3)[OF assms(1-3) Some assms(4)]]
  show ?thesis using Some by simp
qed

text \<open>C4 on the stub that names the tool \<open>nope\<close>.\<close>

theorem unknown_tool_raises_witness:
  "client_create nope_env (first_request nope_env ''list my buckets'' ''S3'') (world start) =
     (Inr (respond (selection [nope_call])), 0) \<and>
   choices (respond (selection [nope_call])) = [\<lparr>message = selection [nope_call]\<rparr>] \<and>
   tool_calls (message \<lparr>message = selection [nope_call]\<rparr>) = Some [nope_call] \<and>
   available_functions nope_env (fn_name (tc_function nope_call)) = None \<and>
   fst (run_conversation nope_env ''list my buckets'' ''S3'' False start) =
     Inl (KeyError ''nope'') \<and>
   issued nope_env ''list my buckets'' ''S3'' False start =
     [CompletionCall (first_request nope_env ''list my buckets'' ''S3'')] \<and>
   world (snd (run_conversation nope_env ''list my buckets'' ''S3'' False start)) = 0"
proof -
  have h1: "client_create nope_env (first_request nope_env ''list my buckets'' ''S3'') (world start) =
     (Inr (respond (selection [nope_call])), 0)"
    by (simp add: nope_env_def)
  have h2: "choices (respond (selection [nope_call])) = [\<lparr>message = selection [nope_call]\<rparr>]"
    by simp
  have h3: "tool_calls (message \<lparr>message = selection [nope_call]\<rparr>) = Some [nope_call]"
    by simp
  have h4: "available_functions nope_env (fn_name (tc_function nope_call)) = None"
    by (simp add: stub_defs)
  from unknown_tool_raises[OF h1 h2 h3 h4, of False] h1 h2 h3 h4
  show ?thesis by (simp add: stub_defs)
qed

text \<open>
  C5. On the tool path, once the handler has returned, the second completion request holds
  the two initial turns, then the assistant's message, then the tool-role turn with the
  handler's output and the invocation's id; it carries no tool list and no tool choice.
  It is the last call of the run, the second of two completion calls, and the run returns
  the content of the response to it.
\<close>

theorem second_call_request:
  assumes "client_create e (first_request e u t) (world s) = (Inr resp, w1)"
    and "choices resp = c # cs"
    and "tool_calls (message c) = Some (tc # rest)"
    and "json_loads e (fn_arguments (tc_function tc)) = Some (JObj kw)"
    and "available_functions e (fn_name (tc_function tc)) = Some h"
    and "h kw w1 = (Inr out, w2)"
    and "client_create e
           \<lparr>model = GPT_MODEL,
            messages = initial_messages u t @
                       [Message (message c),
                        Dict [(''role'', ''tool''), (''content'', out),
                              (''tool_call_id'', tc_id tc)]],
            tools = None, tool_choice = None\<rparr> w2 = (Inr resp2, w3)"
    and "choices resp2 = c2 # cs2"
  shows "last (issued e u t l s) =
           CompletionCall
             \<lparr>model = GPT_MODEL,
              messages = initial_messages u t @
                         [Message (message c),
                          Dict [(''role'', ''tool''), (''content'', out),
                                (''tool_call_id'', tc_id tc)]],
              tools = None, tool_choice = None\<rparr> \<and>
         length (filter is_completion (issued e u t l s)) = 2 \<and>
         fst (run_conversation e u t l s) = Inr (content (message c2))"
proof -
  have r2: "client_create e (second_request u t (message c) out (tc_id tc)) w2 = (Inr resp2, w3)"
    using assms(7) by (simp add: second_request_def tool_message_def)
  from path_tool(1)[OF assms(1-6) r2] issued_eq[OF path_tool(3)[OF assms(1-6) r2]] assms(8)
  show ?thesis by (simp add: second_request_def tool_message_def)
qed

text \<open>C5 on the stub that selects \<open>bump\<close> and then answers \<open>Done.\<close>\<close>

theorem second_call_request_witness:
  "client_create bump_env (first_request bump_env ''bump it'' ''counters'') (world start) =
     (Inr (respond (selection [bump_call])), 0) \<and>
   choices (respond (selection [bump_call])) = [\<lparr>message = selection [bump_call]\<rparr>] \<and>
   tool_calls (message \<lparr>message = selection [bump_call]\<rparr>) = Some [bump_call] \<and>
   json_loads bump_env (fn_arguments (tc_function bump_call)) = Some (JObj []) \<and>
   available_functions bump_env (fn_name (tc_function bump_call)) = Some bump \<and>
   bump [] 0 = (Inr ''bumped'', 1) \<and>
   client_create bump_env
     \<lparr>model = GPT_MODEL,
      messages = initial_messages ''bump it'' ''counters'' @
                 [Message (selection [bump_call]),
                  Dict [(''role'', ''tool''), (''content'', ''bumped''),
                        (''tool_call_id'', ''call_1'')]],
      tools = None, tool_choice = None\<rparr> 1 = (Inr (respond (answer ''Done.'')), 1) \<and>
   choices (respond (answer ''Done.'')) = [\<lparr>message = answer ''Done.''\<rparr>] \<and>
   last (issued bump_env ''bump it'' ''counters'' False start) =
     CompletionCall
       \<lparr>model = GPT_MODEL,
        messages = initial_messages ''bump it'' ''counters'' @
                   [Message (selection [bump_call]),
                    Dict [(''role'', ''tool''), (''content'', ''bumped''),
                          (''tool_call_id'', ''call_1'')]],
        tools = None, tool_choice = None\<rparr> \<and>
   length (filter is_completion (issued bump_env ''bump it'' ''counters'' False start)) = 2 \<and>
   fst (run_conversation bump_env ''bump it'' ''counters'' False start) = Inr (Some ''Done.'')"
proof -
  have h1: "client_create bump_env (first_request bump_env ''bump it'' ''counters'') (world start) =
     (Inr (respond (selection [bump_call])), 0)"
    by (simp add: bump_env_def)
  have h2: "choices (respond (selection [bump_call])) = [\<lparr>message = selection [bump_call]\<rparr>]"
    by simp
  have h3: "tool_calls (message \<lparr>message = selection [bump_call]\<rparr>) = Some [bump_call]"
    by simp
  have h4: "json_loads bump_env (fn_arguments (tc_function bump_call)) = Some (JObj [])"
    by (simp add: stub_defs)
  have h5: "available_functions bump_env (fn_name (tc_function bump_call)) = Some bump"
    by (simp add: stub_defs)
  have h6: "bump [] 0 = (Inr ''bumped'', 1)"
    by (simp add: bump_def)
  have h7: "client_create bump_env
     \<lparr>model = GPT_MODEL,
      messages = initial_messages ''bump it'' ''counters'' @
                 [Message (message \<lparr>message = selection [bump_call]\<rparr>),
                  Dict [(''role'', ''tool''), (''content'', ''bumped''),
                        (''tool_call_id'', tc_id bump_call)]],
      tools = None, tool_choice = None\<rparr> 1 = (Inr (respond (answer ''Done.'')), 1)"
    by (simp add: bump_env_def stub_env_def stub_create_def)
  have h8: "choices (respond (answer ''Done.'')) = [\<lparr>message = answer ''Done.''\<rparr>]"
    by simp
  from second_call_request[OF h1 h2 h3 h4 h5 h6 h7 h8, of False] h1 h2 h3 h4 h5 h6 h7 h8
  show ?thesis by (simp add: bump_call_def)
qed

text \<open>
  C6. An exception raised by the first completion call, by the handler, or by the second
  completion call is the exception the run raises, unchanged. The run issues no further
  call after it (no retry) and the world stays as the raising call left it.
\<close>

theorem errors_propagate:
  "(client_create e (first_request e u t) (world s) = (Inl err, w1) \<longrightarrow>
      fst (run_conversation e u t l s) = Inl err \<and>
      world (snd (run_conversation e u t l s)) = w1 \<and>
      issued e u t l s = [CompletionCall (first_request e u t)]) \<and>
   (client_create e (first_request e u t) (world s) = (Inr resp, w1) \<and>
    choices resp = c # cs \<and>
    tool_calls (message c) = Some (tc # rest) \<and>
    json_loads e (fn_arguments (tc_function tc)) = Some (JObj kw) \<and>
    available_functions e (fn_name (tc_function tc)) = Some h \<and>
    h kw w1 = (Inl err, w2) \<longrightarrow>
      fst (run_conversation e u t l s) = Inl err \<and>
      world (snd (run_conversation e u t l s)) = w2 \<and>
      issued e u t l s =
        [CompletionCall (first_request e u t), ToolCall (fn_name (tc_function tc)) kw]) \<and>
   (client_create e (first_request e u t) (world s) = (Inr resp, w1) \<and>
    choices resp = c # cs \<and>
    tool_calls (message c) = Some (tc # rest) \<and>
    json_loads e (fn_arguments (tc_function tc)) = Some (JObj kw) \<and>
    available_functions e (fn_name (tc_function tc)) = Some h \<and>
    h kw w1 = (Inr out, w2) \<and>
    client_create e (second_request u t (message c) out (tc_id tc)) w2 = (Inl err, w3) \<longrightarrow>
      fst (run_conversation e u t l s) = Inl err \<and>
      world (snd (run_conversation e u t l s)) = w3 \<and>
      issued e u t l s =
        [CompletionCall (first_request e u t), ToolCall (fn_name (tc_function tc)) kw,
         CompletionCall (second_request u t (message c) out (tc_id tc))])"
proof (intro conjI impI)
  assume a: "client_create e (first_request e u t) (world s) = (Inl err, w1)"
  from path_first_raises[OF a] show "fst (run_conversation e u t l s) = Inl err"
    and "world (snd (run_conversation e u t l s)) = w1"
    and "issued e u t l s = [CompletionCall (first_request e u t)]"
    by (simp_all add: issued_eq)
next
  assume a: "client_create e (first_request e u t) (world s) = (Inr resp, w1) \<and>
    choices resp = c # cs \<and>
    tool_calls (message c) = Some (tc # rest) \<and>
    json_loads e (fn_arguments (tc_function tc)) = Some (JObj kw) \<and>
    available_functions e (fn_name (tc_function tc)) = Some h \<and>
    h kw w1 = (Inl err, w2)"
  then have p: "client_create e (first_request e u t) (world s) = (Inr resp, w1)"
    "choices resp = c # cs" "tool_calls (message c) = Some (tc # rest)"
    "json_loads e (fn_arguments (tc_function tc)) = Some (JObj kw)"
    "available_functions e (fn_name (tc_function tc)) = Some h"
    "h kw w1 = (Inl err, w2)" by simp_all
  from path_handler_raises[OF p] show "fst (run_conversation e u t l s) = Inl err"
    and "world (snd (run_conversation e u t l s)) = w2"
    and "issued e u t l s =
        [CompletionCall (first_request e u t), ToolCall (fn_name (tc_function tc)) kw]"
    by (simp_all add: issued_eq)
next
  assume a: "client_create e (first_request e u t) (world s) = (Inr resp, w1) \<and>
    choices resp = c # cs \<and>
    tool_calls (message c) = Some (tc # rest) \<and>
    json_loads e (fn_arguments (tc_function tc)) = Some (JObj kw) \<and>
    available_functions e (fn_name (tc_function tc)) = Some h \<and>
    h kw w1 = (Inr out, w2) \<and>
    client_create e (second_request u t (message c) out (tc_id tc)) w2 = (Inl err, w3)"
  then have p: "client_create e (first_request e u t) (world s) = (Inr resp, w1)"
    "choices resp = c # cs" "tool_calls (message c) = Some (tc # rest)"
    "json_loads e (fn_arguments (tc_function tc)) = Some (JObj kw)"
    "available_functions e (fn_name (tc_function tc)) = Some h"
    "h kw w1 = (Inr out, w2)"
    "client_create e (second_request u t (message c) out (tc_id tc)) w2 = (Inl err, w3)"
    by simp_all
  from path_tool[OF p] show "fst (run_conversation e u t l s) = Inl err"
    and "world (snd (run_conversation e u t l s)) = w3"
    and "issued e u t l s =
        [CompletionCall (first_request e u t), ToolCall (fn_name (tc_function tc)) kw,
         CompletionCall (second_request u t (message c) out (tc_id tc))]"
    by (simp_all add: issued_eq)
qed

text \<open>
  C6 on three stubs: the service raises at the first call, the handler raises, the
  service raises at the second call.
\<close>

theorem errors_propagate_witness:
  "client_create down_env (first_request down_env ''bump it'' ''counters'') (world start) =
     (Inl (ExternalError ''rate limit''), 0) \<and>
   fst (run_conversation down_env ''bump it'' ''counters'' False start) =
     Inl (ExternalError ''rate limit'') \<and>
   issued down_env ''bump it'' ''counters'' False start =
     [CompletionCall (first_request down_env ''bump it'' ''counters'')] \<and>
   client_create failing_env (first_request failing_env ''bump it'' ''counters'') (world start) =
     (Inr (respond (selection [failing_call])), 0) \<and>
   failing [] 0 = (Inl (ExternalError ''bucket unreachable''), 0) \<and>
   fst (run_conversation failing_env ''bump it'' ''counters'' False start) =
     Inl (ExternalError ''bucket unreachable'') \<and>
   issued failing_env ''bump it'' ''counters'' False start =
     [CompletionCall (first_request failing_env ''bump it'' ''counters''),
      ToolCall ''failing'' []] \<and>
   client_create down_later_env (first_request down_later_env ''bump it'' ''counters'')
       (world start) = (Inr (respond (selection [bump_call])), 0) \<and>
   bump [] 0 = (Inr ''bumped'', 1) \<and>
   client_create down_later_env
       (second_request ''bump it'' ''counters'' (selection [bump_call]) ''bumped'' ''call_1'') 1 =
     (Inl (ExternalError ''rate limit''), 1) \<and>
   fst (run_conversation down_later_env ''bump it'' ''counters'' False start) =
     Inl (ExternalError ''rate limit'') \<and>
   world (snd (run_conversation down_later_env ''bump it'' ''counters'' False start)) = 1 \<and>
   issued down_later_env ''bump it'' ''counters'' False start =
     [CompletionCall (first_request down_later_env ''bump it'' ''counters''),
      ToolCall ''bump'' [],
      CompletionCall (second_request ''bump it'' ''counters'' (selection [bump_call])
                        ''bumped'' ''call_1'')]"
proof -
  have a: "client_create down_env (first_request down_env ''bump it'' ''counters'') (world start) =
     (Inl (ExternalError ''rate limit''), 0)"
    by (simp add: down_env_def)
  have b: "client_create failing_env (first_request failing_env ''bump it'' ''counters'')
       (world start) = (Inr (respond (selection [failing_call])), 0) \<and>
    choices (respond (selection [failing_call])) = [\<lparr>message = selection [failing_call]\<rparr>] \<and>
    tool_calls (message \<lparr>message = selection [failing_call]\<rparr>) = Some [failing_call] \<and>
    json_loads failing_env (fn_arguments (tc_function failing_call)) = Some (JObj []) \<and>
    available_functions failing_env (fn_name (tc_function failing_call)) = Some failing \<and>
    failing [] 0 = (Inl (ExternalError ''bucket unreachable''), 0)"
    by (simp add: stub_defs)
  have c: "client_create down_later_env (first_request down_later_env ''bump it'' ''counters'')
       (world start) = (Inr (respond (selection [bump_call])), 0) \<and>
    choices (respond (selection [bump_call])) = [\<lparr>message = selection [bump_call]\<rparr>] \<and>
    tool_calls (message \<lparr>message = selection [bump_call]\<rparr>) = Some [bump_call] \<and>
    json_loads down_later_env (fn_arguments (tc_function bump_call)) = Some (JObj []) \<and>
    available_functions down_later_env (fn_name (tc_function bump_call)) = Some bump \<and>
    bump [] 0 = (Inr ''bumped'', 1) \<and>
    client_create down_later_env
       (second_request ''bump it'' ''counters'' (message \<lparr>message = selection [bump_call]\<rparr>)
          ''bumped'' (tc_id bump_call)) 1 =
     (Inl (ExternalError ''rate limit''), 1)"
    by (simp add: stub_defs)
  from
    errors_propagate[where e = down_env and u = "''bump it''" and t = "''counters''"
      and s = start and err = "ExternalError ''rate limit''" and ?w1.0 = 0 and l = False,
      THEN conjunct1, rule_format, OF a]
    errors_propagate[where e = failing_env and u = "''bump it''" and t = "''counters''"
      and s = start and err = "ExternalError ''bucket unreachable''" and ?w1.0 = 0
      and l = False and resp = "respond (selection [failing_call])"
      and c = "\<lparr>message = selection [failing_call]\<rparr>" and cs = "[]" and tc = failing_call
      and rest = "[]" and kw = "[]" and h = failing and ?w2.0 = 0,
      THEN conjunct2, THEN conjunct1, rule_format, OF b]
    errors_propagate[where e = down_later_env and u = "''bump it''" and t = "''counters''"
      and s = start and err = "ExternalError ''rate limit''" and ?w1.0 = 0
      and l = False and resp = "respond (selection [bump_call])"
      and c = "\<lparr>message = selection [bump_call]\<rparr>" and cs = "[]" and tc = bump_call
      and rest = "[]" and kw = "[]" and h = bump and ?w2.0 = 1 and out = "''bumped''"
      and ?w3.0 = 1,
      THEN conjunct2, THEN conjunct2, rule_format, OF c]
    a b c
  show ?thesis by (simp add: bump_call_def failing_call_def)
qed

text \<open>
  C7. A run that follows an earlier run starts, like every run, with a completion call
  whose conversation is exactly the system turn and the user turn of its own arguments.
  Its result, the world it leaves and the calls it issues are those of a run started on
  the same world with an empty trace and no output: nothing of the earlier conversation
  reaches it.
\<close>

theorem fresh_conversation:
  "(\<exists>evs. issued e u t l (snd (run_conversation e u0 t0 l0 s0)) =
      CompletionCall
        \<lparr>model = GPT_MODEL,
         messages = [Dict [(''role'', ''system''), (''content'', system_message t)],
                     Dict [(''role'', ''user''), (''content'', u)]],
         tools = Some (functions' e), tool_choice = Some ''auto''\<rparr> # evs) \<and>
   fst (run_conversation e u t l (snd (run_conversation e u0 t0 l0 s0))) =
     fst (run_conversation e u t l
            \<lparr>world = world (snd (run_conversation e u0 t0 l0 s0)), trace = [], stdout = []\<rparr>) \<and>
   world (snd (run_conversation e u t l (snd (run_conversation e u0 t0 l0 s0)))) =
     world (snd (run_conversation e u t l
            \<lparr>world = world (snd (run_conversation e u0 t0 l0 s0)), trace = [], stdout = []\<rparr>)) \<and>
   issued e u t l (snd (run_conversation e u0 t0 l0 s0)) =
     issued e u t l
       \<lparr>world = world (snd (run_conversation e u0 t0 l0 s0)), trace = [], stdout = []\<rparr>"
proof -
  define s' where "s' = snd (run_conversation e u0 t0 l0 s0)"
  have w: "world s' = world \<lparr>world = world s', trace = [], stdout = []\<rparr>" by simp
  from first_issued[of e u t l s'] run_world_only[OF w, of e u t l]
  show ?thesis
    unfolding s'_def[symmetric] by (simp add: first_request_def initial_messages_def)
qed

text \<open>
  C8. Against a completion service that leaves the world alone and selects the same
  registered handler on every call, two runs with the same input apply the handler's
  effect on the world twice, and the handler is called twice: nothing is deduplicated
  or cached.
\<close>

theorem side_effect_twice:
  assumes "\<forall>req w. snd (client_create e req w) = w"
    and "\<forall>w. fst (client_create e (first_request e u t) w) = Inr resp"
    and "choices resp = c # cs"
    and "tool_calls (message c) = Some (tc # rest)"
    and "json_loads e (fn_arguments (tc_function tc)) = Some (JObj kw)"
    and "available_functions e (fn_name (tc_function tc)) = Some h"
  shows "world (snd (run_conversation e u t l (snd (run_conversation e u t l s)))) =
           snd (h kw (snd (h kw (world s)))) \<and>
         filter is_tool
           (issued e u t l s @ issued e u t l (snd (run_conversation e u t l s))) =
           [ToolCall (fn_name (tc_function tc)) kw, ToolCall (fn_name (tc_function tc)) kw]"
  using run_selected[OF assms, of l s]
    run_selected[OF assms, of l "snd (run_conversation e u t l s)"]
  by simp

text \<open>C8 on the counter: two runs from zero leave the counter at two.\<close>

theorem side_effect_twice_witness:
  "(\<forall>req w. snd (client_create bump_env req w) = w) \<and>
   (\<forall>w. fst (client_create bump_env (first_request bump_env ''bump it'' ''counters'') w) =
      Inr (respond (selection [bump_call]))) \<and>
   choices (respond (selection [bump_call])) = [\<lparr>message = selection [bump_call]\<rparr>] \<and>
   tool_calls (message \<lparr>message = selection [bump_call]\<rparr>) = Some [bump_call] \<and>
   json_loads bump_env (fn_arguments (tc_function bump_call)) = Some (JObj []) \<and>
   available_functions bump_env (fn_name (tc_function bump_call)) = Some bump \<and>
   world (snd (run_conversation bump_env ''bump it'' ''counters'' False start)) = 1 \<and>
   world (snd (run_conversation bump_env ''bump it'' ''counters'' False
                 (snd (run_conversation bump_env ''bump it'' ''counters'' False start)))) = 2 \<and>
   filter is_tool
     (issued bump_env ''bump it'' ''counters'' False start @
      issued bump_env ''bump it'' ''counters'' False
        (snd (run_conversation bump_env ''bump it'' ''counters'' False start))) =
     [ToolCall ''bump'' [], ToolCall ''bump'' []]"
proof -
  have h1: "\<forall>req w. snd (client_create bump_env req w) = w"
    by (simp add: bump_env_def stub_env_def stub_create_def)
  have h2: "\<forall>w. fst (client_create bump_env (first_request bump_env ''bump it'' ''counters'') w) =
      Inr (respond (selection [bump_call]))"
    by (simp add: bump_env_def)
  have h3: "choices (respond (selection [bump_call])) = [\<lparr>message = selection [bump_call]\<rparr>]"
    by simp
  have h4: "tool_calls (message \<lparr>message = selection [bump_call]\<rparr>) = Some [bump_call]"
    by simp
  have h5: "json_loads bump_env (fn_arguments (tc_function bump_call)) = Some (JObj [])"
    by (simp add: stub_defs)
  have h6: "available_functions bump_env (fn_name (tc_function bump_call)) = Some bump"
    by (simp add: stub_defs)
  have one: "world (snd (run_conversation bump_env ''bump it'' ''counters'' False start)) = 1"
    using run_selected(1)[OF h1 h2 h3 h4 h5 h6, of False start] by (simp add: bump_def)
  from side_effect_twice[OF h1 h2 h3 h4 h5 h6, of False start] h1 h2 h3 h4 h5 h6 one
  show ?thesis by (simp add: bump_def bump_call_def)
qed

text \<open>
  C9, as amended. When the first response carries more than one tool invocation and the
  first of them goes through (its arguments decode to a JSON object, its name is a key of
  \<^verbatim>\<open>available_functions\<close>, its handler returns), the handler of the first is the only
  handler called and the later invocations are neither decoded nor looked up. The second
  request carries the assistant's message with every invocation and one tool-role turn,
  with the id of the first. The run then ends as the second completion call ends: it
  returns the content of the response, or raises what the service raises.
\<close>

theorem first_tool_call_only:
  assumes "client_create e (first_request e u t) (world s) = (Inr resp, w1)"
    and "choices resp = c # cs"
    and "tool_calls (message c) = Some (tc # rest)"
    and "rest \<noteq> []"
    and "json_loads e (fn_arguments (tc_function tc)) = Some (JObj kw)"
    and "available_functions e (fn_name (tc_function tc)) = Some h"
    and "h kw w1 = (Inr out, w2)"
    and "client_create e (second_request u t (message c) out (tc_id tc)) w2 = (r2, w3)"
  shows "filter is_tool (issued e u t l s) = [ToolCall (fn_name (tc_function tc)) kw] \<and>
         filter is_completion (issued e u t l s) =
           [CompletionCall (first_request e u t),
            CompletionCall
              \<lparr>model = GPT_MODEL,
               messages = initial_messages u t @
                          [Message (message c),
                           Dict [(''role'', ''tool''), (''content'', out),
                                 (''tool_call_id'', tc_id tc)]],
               tools = None, tool_choice = None\<rparr>] \<and>
         world (snd (run_conversation e u t l s)) = w3 \<and>
         fst (run_conversation e u t l s) =
           (case r2 of
              Inl err \<Rightarrow> Inl err
            | Inr resp2 \<Rightarrow>
                (case choices resp2 of
                   [] \<Rightarrow> Inl IndexError
                 | c2 # _ \<Rightarrow> Inr (content (message c2))))"
  using path_tool(1,2)[OF assms(1-3,5-8)] issued_eq[OF path_tool(3)[OF assms(1-3,5-8)]]
  by (simp add: second_request_def tool_message_def)

text \<open>
  The amended C9 on a response whose second invocation names an unknown tool with
  arguments that are not JSON, against the service that answers every conversation.
\<close>

theorem first_tool_call_only_witness:
  "client_create two_calls_env (first_request two_calls_env ''bump it'' ''counters'')
       (world start) = (Inr (respond (selection [bump_call, stray_call])), 0) \<and>
   choices (respond (selection [bump_call, stray_call])) =
     [\<lparr>message = selection [bump_call, stray_call]\<rparr>] \<and>
   tool_calls (message \<lparr>message = selection [bump_call, stray_call]\<rparr>) =
     Some [bump_call, stray_call] \<and>
   [stray_call] \<noteq> [] \<and>
   available_functions two_calls_env (fn_name (tc_function stray_call)) = None \<and>
   json_loads two_calls_env (fn_arguments (tc_function stray_call)) = None \<and>
   json_loads two_calls_env (fn_arguments (tc_function bump_call)) = Some (JObj []) \<and>
   available_functions two_calls_env (fn_name (tc_function bump_call)) = Some bump \<and>
   bump [] 0 = (Inr ''bumped'', 1) \<and>
   client_create two_calls_env
       (second_request ''bump it'' ''counters'' (selection [bump_call, stray_call])
          ''bumped'' ''call_1'') 1 = (Inr (respond (answer ''Done.'')), 1) \<and>
   filter is_tool (issued two_calls_env ''bump it'' ''counters'' False start) =
     [ToolCall ''bump'' []] \<and>
   filter is_completion (issued two_calls_env ''bump it'' ''counters'' False start) =
     [CompletionCall (first_request two_calls_env ''bump it'' ''counters''),
      CompletionCall
        \<lparr>model = GPT_MODEL,
         messages = initial_messages ''bump it'' ''counters'' @
                    [Message (selection [bump_call, stray_call]),
                     Dict [(''role'', ''tool''), (''content'', ''bumped''),
                           (''tool_call_id'', ''call_1'')]],
         tools = None, tool_choice = None\<rparr>] \<and>
   world (snd (run_conversation two_calls_env ''bump it'' ''counters'' False start)) = 1 \<and>
   fst (run_conversation two_calls_env ''bump it'' ''counters'' False start) =
     Inr (Some ''Done.'')"
proof -
  have h1: "client_create two_calls_env (first_request two_calls_env ''bump it'' ''counters'')
       (world start) = (Inr (respond (selection [bump_call, stray_call])), 0)"
    by (simp add: two_calls_env_def)
  have h2: "choices (respond (selection [bump_call, stray_call])) =
     [\<lparr>message = selection [bump_call, stray_call]\<rparr>]"
    by simp
  have h3: "tool_calls (message \<lparr>message = selection [bump_call, stray_call]\<rparr>) =
     Some [bump_call, stray_call]"
    by simp
  have h4: "[stray_call] \<noteq> []"
    by simp
  have h5: "json_loads two_calls_env (fn_arguments (tc_function bump_call)) = Some (JObj [])"
    by (simp add: stub_defs)
  have h6: "available_functions two_calls_env (fn_name (tc_function bump_call)) = Some bump"
    by (simp add: stub_defs)
  have h7: "bump [] 0 = (Inr ''bumped'', 1)"
    by (simp add: bump_def)
  have h8: "client_create two_calls_env
       (second_request ''bump it'' ''counters''
          (message \<lparr>message = selection [bump_call, stray_call]\<rparr>) ''bumped'' (tc_id bump_call)) 1 =
       (Inr (respond (answer ''Done.'')), 1)"
    by (simp add: two_calls_env_def)
  have stray: "available_functions two_calls_env (fn_name (tc_function stray_call)) = None"
    "json_loads two_calls_env (fn_arguments (tc_function stray_call)) = None"
    by (simp_all add: stub_defs)
  from first_tool_call_only[OF h1 h2 h3 h4 h5 h6 h7 h8, of False]
    h1 h2 h3 h5 h6 h7 h8 stray
  show ?thesis by (simp add: bump_call_def)
qed

text \<open>
  C9 as written says that the later invocations are ignored without an error being raised.
  The assistant's message is forwarded with both invocations while only the first is
  answered. Against a service that refuses such a conversation (and accepts the one with
  a single, answered invocation) the run raises the service's error, after the handler
  has moved the counter to one.
\<close>

theorem first_tool_call_only_counterexample:
  "tool_calls (message (hd (choices (respond (selection [bump_call, stray_call]))))) =
     Some [bump_call, stray_call] \<and>
   fst (client_create strict_env (first_request strict_env ''bump it'' ''counters'')
          (world start)) = Inr (respond (selection [bump_call, stray_call])) \<and>
   fst (client_create strict_env
          (second_request ''bump it'' ''counters'' (selection [bump_call])
             ''bumped'' ''call_1'') 1) = Inr (respond (answer ''Done.'')) \<and>
   fst (run_conversation strict_env ''bump it'' ''counters'' False start) =
     Inl (ExternalError ''tool call without a response'') \<and>
   world (snd (run_conversation strict_env ''bump it'' ''counters'' False start)) = 1 \<and>
   filter is_tool (issued strict_env ''bump it'' ''counters'' False start) =
     [ToolCall ''bump'' []]"
proof -
  have h1: "client_create strict_env (first_request strict_env ''bump it'' ''counters'')
       (world start) = (Inr (respond (selection [bump_call, stray_call])), 0)"
    by (simp add: strict_env_def strict_create_def first_request_def)
  have h2: "choices (respond (selection [bump_call, stray_call])) =
     [\<lparr>message = selection [bump_call, stray_call]\<rparr>]"
    by simp
  have h3: "tool_calls (message \<lparr>message = selection [bump_call, stray_call]\<rparr>) =
     Some [bump_call, stray_call]"
    by simp
  have h5: "json_loads strict_env (fn_arguments (tc_function bump_call)) = Some (JObj [])"
    by (simp add: strict_env_def stub_defs)
  have h6: "available_functions strict_env (fn_name (tc_function bump_call)) = Some bump"
    by (simp add: strict_env_def stub_defs)
  have h7: "bump [] 0 = (Inr ''bumped'', 1)"
    by (simp add: bump_def)
  have h8: "client_create strict_env
       (second_request ''bump it'' ''counters''
          (message \<lparr>message = selection [bump_call, stray_call]\<rparr>) ''bumped'' (tc_id bump_call)) 1 =
       (Inl (ExternalError ''tool call without a response''), 1)"
    by (simp add: strict_env_def strict_create_def second_request_def initial_messages_def
        tool_message_def bump_call_def stray_call_def)
  have single: "fst (client_create strict_env
          (second_request ''bump it'' ''counters'' (selection [bump_call])
             ''bumped'' ''call_1'') 1) = Inr (respond (answer ''Done.''))"
    by (simp add: strict_env_def strict_create_def second_request_def initial_messages_def
        tool_message_def bump_call_def)
  from path_tool(1,2)[OF h1 h2 h3 h5 h6 h7 h8, of False]
    issued_eq[OF path_tool(3)[OF h1 h2 h3 h5 h6 h7 h8, of False]] h1 single
  show ?thesis by (simp add: bump_call_def)
qed

text \<open>
  C10. When the argument string of the selected invocation is not JSON, the run raises
  \<^verbatim>\<open>JSONDecodeError\<close>; the only call issued is the first completion call, so no
  handler ran, and the world is as the first completion call left it.
\<close>

theorem bad_json_raises:
  assumes "client_create e (first_request e u t) (world s) = (Inr resp, w1)"
    and "choices resp = c # cs"
    and "tool_calls (message c) = Some (tc # rest)"
    and "json_loads e (fn_arguments (tc_function tc)) = None"
  shows "fst (run_conversation e u t l s) = Inl JSONDecodeError \<and>
         issued e u t l s = [CompletionCall (first_request e u t)] \<and>
         world (snd (run_conversation e u t l s)) = w1"
  using path_bad_json(1,2)[OF assms] issued_eq[OF path_bad_json(3)[OF assms]] by simp

text \<open>C10 on the stub that sends the arguments \<open>{oops\<close>.\<close>

theorem bad_json_raises_witness:
  "client_create garbled_env (first_request garbled_env ''bump it'' ''counters'') (world start) =
     (Inr (respond (selection [garbled_call])), 0) \<and>
   choices (respond (selection [garbled_call])) = [\<lparr>message = selection [garbled_call]\<rparr>] \<and>
   tool_calls (message \<lparr>message = selection [garbled_call]\<rparr>) = Some [garbled_call] \<and>
   json_loads garbled_env (fn_arguments (tc_function garbled_call)) = None \<and>
   fst (run_conversation garbled_env ''bump it'' ''counters'' False start) = Inl JSONDecodeError \<and>
   issued garbled_env ''bump it'' ''counters'' False start =
     [CompletionCall (first_request garbled_env ''bump it'' ''counters'')] \<and>
   world (snd (run_conversation garbled_env ''bump it'' ''counters'' False start)) = 0"
proof -
  have h1: "client_create garbled_env (first_request garbled_env ''bump it'' ''counters'')
      (world start) = (Inr (respond (selection [garbled_call])), 0)"
    by (simp add: garbled_env_def)
  have h2: "choices (respond (selection [garbled_call])) = [\<lparr>message = selection [garbled_call]\<rparr>]"
    by simp
  have h3: "tool_calls (message \<lparr>message = selection [garbled_call]\<rparr>) = Some [garbled_call]"
    by simp
  have h4: "json_loads garbled_env (fn_arguments (tc_function garbled_call)) = None"
    by (simp add: stub_defs)
  from bad_json_raises[OF h1 h2 h3 h4, of False] h1 h2 h3 h4
  show ?thesis by simp
qed

end
